theory Spec2Isabelle
  imports Complex_Main "HOL-Library.Multiset" "HOL-Library.AList" "HOL-Library.Char_ord"
    "HOL-Library.List_Lexorder"
begin

section \<open>Exceptions\<close>

text \<open>
  The exceptions the modelled code raises or catches. All of them are subclasses of
  Python's \<^verbatim>\<open>Exception\<close>, which is what \<^verbatim>\<open>except Exception\<close> catches.
\<close>

datatype error =
    ValueError
  | RuntimeError
  | FileNotFoundError
  | IOError
  | KeyError
  | NameError
  | AttributeError
  | TypeError
  | ZeroDivisionError
  | OverflowError

section \<open>Decision logic (decisions/decision\_logic.py)\<close>

text \<open>
  Python floats are modelled as real numbers: the decision functions only compare,
  negate and divide scores, and rounding is left out of the model. The float range is
  kept where an int is divided.
\<close>

text \<open>
  A dictionary with string keys is an association list; the values that occur in the
  modelled dictionaries are strings, integers and dictionaries.
\<close>

datatype json = JStr string | JInt int | JObject "(string \<times> json) list"

type_synonym dict = "(string \<times> json) list"

record DocumentEvaluation =
  score :: real
  has_critical_issues :: bool
  has_false_facts :: bool
  issue_count :: int
  quality_notes :: string
  evaluation_metadata :: dict

record MatchResult =
  jd_id :: string
  match_score :: real
  relevance_score :: real
  matched_keywords :: "string list"
  missing_skills :: "string list"
  recommendation :: string

text \<open>
  The decision \<^verbatim>\<open>has_critical_issues(evaluation)\<close> returns the field of that name, which is
  the record's selector \<^const>\<open>has_critical_issues\<close>. Logging is left out throughout.
\<close>

definition did_score_decrease :: "real \<Rightarrow> real \<Rightarrow> bool" where
  "did_score_decrease current_score previous_score \<longleftrightarrow> current_score < previous_score"

definition is_score_good_enough :: "real \<Rightarrow> real \<Rightarrow> bool" where
  "is_score_good_enough s threshold \<longleftrightarrow> s \<ge> threshold"

text \<open>
  \<^verbatim>\<open>sorted(matches, key=lambda m: m.match_score, reverse=True)\<close>: Python's sort is
  stable, also with \<^verbatim>\<open>reverse=True\<close>, and a stable sort has only one possible result,
  so the stable insertion sort of the library on the negated key computes it.
\<close>

definition sorted_matches :: "MatchResult list \<Rightarrow> MatchResult list" where
  "sorted_matches matches = sort_key (\<lambda>m. - match_score m) matches"

text \<open>
  The slice \<^verbatim>\<open>xs[:n]\<close> for a Python int \<open>n\<close>: a negative bound counts from the end.
\<close>

definition slice_to :: "'a list \<Rightarrow> int \<Rightarrow> 'a list" where
  "slice_to xs n =
     (if 0 \<le> n then take (nat n) xs else take (nat (int (length xs) + n)) xs)"

definition select_top_jds :: "MatchResult list \<Rightarrow> int \<Rightarrow> string list" where
  "select_top_jds matches top_n = map jd_id (slice_to (sorted_matches matches) top_n)"

text \<open>
  Python's true division of two ints gives the float nearest to the quotient. It raises
  \<^verbatim>\<open>ZeroDivisionError\<close> for a zero divisor and \<^verbatim>\<open>OverflowError\<close> when that float
  would be beyond the largest double, which is the case from \<open>2^1024 - 2^970\<close> on (the
  midpoint between the largest double and \<open>2^1024\<close>). The rounding of a quotient that
  is in range is left out.
\<close>

definition true_divide :: "int \<Rightarrow> int \<Rightarrow> error + real" where
  "true_divide a b =
     (if b = 0 then Inl ZeroDivisionError
      else if \<bar>real_of_int a / real_of_int b\<bar> \<ge> 2 ^ 1024 - 2 ^ 970 then Inl OverflowError
      else Inr (real_of_int a / real_of_int b))"

text \<open>
  \<^verbatim>\<open>calculate_length_score\<close>: the guard on a zero target comes first, then
  \<^verbatim>\<open>max(0.0, 1.0 - abs(actual_length - target_length) / target_length)\<close>, where the
  absolute difference is an int and the division is the true division.
\<close>

definition calculate_length_score :: "int \<Rightarrow> int \<Rightarrow> error + real" where
  "calculate_length_score actual_length target_length =
     (if target_length = 0 then Inr 0
      else
        case true_divide \<bar>actual_length - target_length\<bar> target_length of
          Inl e \<Rightarrow> Inl e
        | Inr ratio \<Rightarrow> Inr (max 0 (1 - ratio)))"


section \<open>The agent pool (agents/agent\_pool.py)\<close>

text \<open>
  An agent is modelled by what its \<^verbatim>\<open>run\<close> does on an input: it returns an output or
  raises. The entries of the list \<^verbatim>\<open>execute_agents\<close> returns are either outputs or the
  exception objects that were caught.
\<close>

type_synonym ('i, 'o) agent = "'i \<Rightarrow> error + 'o"

datatype 'o agent_result = Succeeded 'o | Failed error

record AgentPool =
  pool_size :: "int option"

definition AgentPool_init :: "int option \<Rightarrow> error + AgentPool" where
  "AgentPool_init requested =
     (case requested of
        None \<Rightarrow> Inr \<lparr>pool_size = None\<rparr>
      | Some n \<Rightarrow> if n < 1 then Inl ValueError else Inr \<lparr>pool_size = Some n\<rparr>)"

text \<open>
  \<^verbatim>\<open>_execute_one\<close>: with a semaphore the agent runs inside \<^verbatim>\<open>async with\<close>, without one it
  runs directly; both branches await \<^verbatim>\<open>agent.run(input_data)\<close>, and the handler turns a
  raised exception into the value paired with the index.
\<close>

definition execute_one ::
  "AgentPool \<Rightarrow> ('i, 'o) agent \<Rightarrow> 'i \<Rightarrow> nat \<Rightarrow> nat \<times> 'o agent_result" where
  "execute_one pool agent input_data index =
     (case (case pool_size pool of
              Some n \<Rightarrow> agent input_data
            | None \<Rightarrow> agent input_data) of
        Inr r \<Rightarrow> (index, Succeeded r)
      | Inl e \<Rightarrow> (index, Failed e))"

text \<open>
  The tasks run concurrently, and the pool's semaphore only decides which of them may be
  running at a time. The model keeps of a concurrent run the order in which the tasks
  complete, \<open>completion\<close>, a list of task indices, and lets \<open>gather\<close> hand the
  \<open>(index, result)\<close> pairs over in that order. (\<^verbatim>\<open>asyncio.gather\<close> itself returns them
  in task order, which is the completion order \<open>[0..<n]\<close>.)
\<close>

definition gather :: "nat list \<Rightarrow> 'a list \<Rightarrow> 'a list" where
  "gather completion tasks = map (\<lambda>i. tasks ! i) completion"

definition execute_agents ::
  "AgentPool \<Rightarrow> nat list \<Rightarrow> ('i, 'o) agent list \<Rightarrow> 'i list \<Rightarrow> error + 'o agent_result list" where
  "execute_agents pool completion agents inputs =
     (if length agents \<noteq> length inputs then Inl ValueError
      else if agents = [] then Inr []
      else
        let tasks = map (\<lambda>(index, (agent, input_data)). execute_one pool agent input_data index)
                        (enumerate 0 (zip agents inputs));
            index_results = gather completion tasks;
            sorted_results = sort_key fst index_results
        in Inr (map snd sorted_results))"

definition execute_batches ::
  "AgentPool \<Rightarrow> nat list \<Rightarrow> ('i \<Rightarrow> ('i, 'o) agent) \<Rightarrow> 'i list \<Rightarrow> error + 'o agent_result list" where
  "execute_batches pool completion agent_factory inputs =
     execute_agents pool completion (map agent_factory inputs) inputs"

text \<open>What the unit at one index produces on its own, as a list entry.\<close>

definition unit_result :: "('i, 'o) agent \<Rightarrow> 'i \<Rightarrow> 'o agent_result" where
  "unit_result agent input_data =
     (case agent input_data of Inr r \<Rightarrow> Succeeded r | Inl e \<Rightarrow> Failed e)"


section \<open>The state manager (state/state\_manager.py)\<close>

text \<open>
  The run directory is modelled by its files. A version file
  \<^verbatim>\<open>versions/{document_id}/v{n}.json\<close> is an entry under the key \<open>(document_id, n)\<close>:
  \<^verbatim>\<open>save_version\<close> writes the name from the integer and \<^verbatim>\<open>get_latest_version\<close> parses
  the same integer back from it. A checkpoint file is an entry under its file name.
  Writing a file that exists replaces it. The clock readings (\<^verbatim>\<open>datetime.utcnow()\<close>,
  formatted) are arguments, and failures of the file system are not part of the model.
\<close>

record version_data =
  version :: int
  content :: string
  metadata :: dict
  timestamp :: string

record StateManager =
  version_files :: "((string \<times> int) \<times> version_data) list"
  checkpoint_files :: "(string \<times> dict) list"

definition save_version ::
  "StateManager \<Rightarrow> string \<Rightarrow> int \<Rightarrow> string \<Rightarrow> dict \<Rightarrow> string \<Rightarrow> StateManager" where
  "save_version sm document_id version_num text meta now =
     sm\<lparr>version_files :=
          AList.update (document_id, version_num)
            \<lparr>version = version_num, content = text, metadata = meta, timestamp = now\<rparr>
            (version_files sm)\<rparr>"

definition load_version :: "StateManager \<Rightarrow> string \<Rightarrow> int \<Rightarrow> error + version_data" where
  "load_version sm document_id version_num =
     (case map_of (version_files sm) (document_id, version_num) of
        None \<Rightarrow> Inl FileNotFoundError
      | Some version_data \<Rightarrow> Inr version_data)"

definition version_numbers :: "StateManager \<Rightarrow> string \<Rightarrow> int list" where
  "version_numbers sm document_id =
     map (\<lambda>((d, n), v). n) (filter (\<lambda>((d, n), v). d = document_id) (version_files sm))"

definition get_latest_version ::
  "StateManager \<Rightarrow> string \<Rightarrow> error + (int \<times> version_data)" where
  "get_latest_version sm document_id =
     (if version_numbers sm document_id = [] then Inl FileNotFoundError
      else
        let latest_num = Max (set (version_numbers sm document_id)) in
        case load_version sm document_id latest_num of
          Inl e \<Rightarrow> Inl e
        | Inr latest_data \<Rightarrow> Inr (latest_num, latest_data))"

text \<open>
  \<^verbatim>\<open>save_checkpoint\<close>: the file is named \<^verbatim>\<open>{stage}_{timestamp}.json\<close>, with the clock
  formatted by \<^verbatim>\<open>%Y%m%d_%H%M%S\<close> (\<open>stamp\<close>), and holds the state data with the keys
  \<^verbatim>\<open>stage\<close> and \<^verbatim>\<open>checkpoint_timestamp\<close> (the clock in ISO format, \<open>iso_time\<close>) set.
\<close>

definition save_checkpoint ::
  "StateManager \<Rightarrow> string \<Rightarrow> dict \<Rightarrow> string \<Rightarrow> string \<Rightarrow> string \<times> StateManager" where
  "save_checkpoint sm stage state_data stamp iso_time =
     (let checkpoint_name = stage @ ''_'' @ stamp @ ''.json'';
          checkpoint_data =
            AList.update ''checkpoint_timestamp'' (JStr iso_time)
              (AList.update ''stage'' (JStr stage) state_data)
      in (checkpoint_name,
          sm\<lparr>checkpoint_files := AList.update checkpoint_name checkpoint_data (checkpoint_files sm)\<rparr>))"

text \<open>
  \<^verbatim>\<open>list_checkpoints\<close>: \<^verbatim>\<open>sorted(checkpoint_files, reverse=True)\<close> orders the paths of one
  directory by file name, descending; strings compare lexicographically by character code.
\<close>

definition list_checkpoints :: "StateManager \<Rightarrow> string list" where
  "list_checkpoints sm = rev (sort (map fst (checkpoint_files sm)))"

definition load_latest_checkpoint :: "StateManager \<Rightarrow> error + (json \<times> dict) option" where
  "load_latest_checkpoint sm =
     (case list_checkpoints sm of
        [] \<Rightarrow> Inr None
      | latest_checkpoint # _ \<Rightarrow>
          (case map_of (checkpoint_files sm) latest_checkpoint of
             None \<Rightarrow> Inl IOError
           | Some checkpoint_data \<Rightarrow>
               Inr (Some (case map_of checkpoint_data ''stage'' of
                            Some stage_name \<Rightarrow> stage_name
                          | None \<Rightarrow> JStr ''unknown'',
                          checkpoint_data))))"

text \<open>The time a checkpoint was created, as the checkpoint records it.\<close>

definition created_at :: "dict \<Rightarrow> string" where
  "created_at checkpoint_data =
     (case map_of checkpoint_data ''checkpoint_timestamp'' of Some (JStr t) \<Rightarrow> t | _ \<Rightarrow> [])"

section \<open>The version manager (agents/writing/version\_manager.py)\<close>

text \<open>
  The input dictionary, with a field for each key the agent reads; \<open>None\<close> is a missing
  key. Values of another Python type than the one the agent expects are not modelled.
\<close>

record version_input =
  action :: "string option"
  document_id :: "string option"
  input_content :: "string option"
  input_version_num :: "int option"
  input_metadata :: "dict option"

record version_result =
  version_num :: int
  result_content :: string
  result_metadata :: dict
  result_timestamp :: "string option"

text \<open>\<^verbatim>\<open>str.strip()\<close> on ASCII text: whitespace is removed at both ends.\<close>

definition is_space :: "char \<Rightarrow> bool" where
  "is_space c \<longleftrightarrow> c \<in> set [CHR 0x09, CHR 0x0A, CHR 0x0B, CHR 0x0C, CHR 0x0D,
                            CHR 0x1C, CHR 0x1D, CHR 0x1E, CHR 0x1F, CHR '' '']"

definition strip :: "string \<Rightarrow> string" where
  "strip s = rev (dropWhile is_space (rev (dropWhile is_space s)))"

definition VersionManager_validate_input :: "version_input \<Rightarrow> bool" where
  "VersionManager_validate_input input_data =
     (let act = (case action input_data of None \<Rightarrow> [] | Some a \<Rightarrow> a);
          doc = (case document_id input_data of None \<Rightarrow> [] | Some d \<Rightarrow> d)
      in if act \<noteq> ''store'' \<and> act \<noteq> ''restore'' then False
         else if strip doc = [] then False
         else if act = ''store'' then
           (let text = (case input_content input_data of None \<Rightarrow> [] | Some c \<Rightarrow> c)
            in if length (strip text) < 10 then False else True)
         else
           (case input_version_num input_data of
              None \<Rightarrow> False
            | Some n \<Rightarrow> if n < 1 then False else True))"


text \<open>
  \<^verbatim>\<open>execute\<close>: a store asks the state manager for the latest version and takes the next
  number, or 1 when \<^verbatim>\<open>FileNotFoundError\<close> says there is none; a restore loads the
  version asked for. Reading a missing key of the input raises \<^verbatim>\<open>KeyError\<close>.
\<close>

definition VersionManager_execute ::
  "StateManager \<Rightarrow> version_input \<Rightarrow> string \<Rightarrow> error + (version_result \<times> StateManager)" where
  "VersionManager_execute sm input_data now =
     (case action input_data of None \<Rightarrow> Inl KeyError | Some act \<Rightarrow>
      case document_id input_data of None \<Rightarrow> Inl KeyError | Some doc \<Rightarrow>
      if act = ''store'' then
        (case input_content input_data of None \<Rightarrow> Inl KeyError | Some text \<Rightarrow>
         let meta = (case input_metadata input_data of None \<Rightarrow> [] | Some m \<Rightarrow> m) in
         case (case get_latest_version sm doc of
                 Inr (latest_num, _) \<Rightarrow> Inr (latest_num + 1)
               | Inl e \<Rightarrow> if e = FileNotFoundError then Inr 1 else Inl e) of
           Inl e \<Rightarrow> Inl e
         | Inr next_version \<Rightarrow>
             Inr (\<lparr>version_num = next_version, result_content = text,
                   result_metadata = meta, result_timestamp = None\<rparr>,
                  save_version sm doc next_version text meta now))
      else
        (case input_version_num input_data of None \<Rightarrow> Inl KeyError | Some n \<Rightarrow>
         case load_version sm doc n of
           Inl e \<Rightarrow> Inl e
         | Inr version_data \<Rightarrow>
             Inr (\<lparr>version_num = version version_data, result_content = content version_data,
                   result_metadata = metadata version_data,
                   result_timestamp = Some (timestamp version_data)\<rparr>, sm)))"

text \<open>
  \<^verbatim>\<open>format_output\<close> copies the four keys, and \<^verbatim>\<open>execute\<close> always sets all four.
\<close>

definition VersionManager_format_output :: "version_result \<Rightarrow> version_result" where
  "VersionManager_format_output raw_output =
     \<lparr>version_num = version_num raw_output, result_content = result_content raw_output,
      result_metadata = result_metadata raw_output,
      result_timestamp = result_timestamp raw_output\<rparr>"

text \<open>
  \<^verbatim>\<open>BaseAgent.run\<close> for the version manager: an input that fails validation raises
  \<^verbatim>\<open>ValueError\<close>, and an exception of \<^verbatim>\<open>execute\<close> is raised again as
  \<^verbatim>\<open>RuntimeError\<close>. The artifact the pipeline saves afterwards is a file
  \<^verbatim>\<open>version_manager_{timestamp}.json\<close> of the stage directory; it is no version file and
  is left out.
\<close>

definition VersionManager_run ::
  "StateManager \<Rightarrow> version_input \<Rightarrow> string \<Rightarrow> error + (version_result \<times> StateManager)" where
  "VersionManager_run sm input_data now =
     (if \<not> VersionManager_validate_input input_data then Inl ValueError
      else
        case VersionManager_execute sm input_data now of
          Inl e \<Rightarrow> Inl RuntimeError
        | Inr (raw_output, sm') \<Rightarrow> Inr (VersionManager_format_output raw_output, sm'))"

definition store_input :: "string \<Rightarrow> string \<Rightarrow> dict \<Rightarrow> version_input" where
  "store_input doc text meta =
     \<lparr>action = Some ''store'', document_id = Some doc, input_content = Some text,
      input_version_num = None, input_metadata = Some meta\<rparr>"

text \<open>
  Consecutive store calls for one document: each request is the content, the metadata
  and the clock reading of the call; the results are kept in call order.
\<close>

fun store_calls ::
  "StateManager \<Rightarrow> string \<Rightarrow> (string \<times> dict \<times> string) list
     \<Rightarrow> (error + version_result) list \<times> StateManager" where
  "store_calls sm doc [] = ([], sm)"
| "store_calls sm doc ((text, meta, now) # requests) =
     (case VersionManager_run sm (store_input doc text meta) now of
        Inl e \<Rightarrow> (let (results, sm') = store_calls sm doc requests in (Inl e # results, sm'))
      | Inr (r, sm1) \<Rightarrow>
          (let (results, sm') = store_calls sm1 doc requests in (Inr r # results, sm')))"

text \<open>The greatest version number a document has, 0 when it has no version.\<close>

definition latest_number :: "StateManager \<Rightarrow> string \<Rightarrow> int" where
  "latest_number sm doc =
     (if version_numbers sm doc = [] then 0 else Max (set (version_numbers sm doc)))"


section \<open>The document evaluator's output format (agents/writing/document\_evaluator.py)\<close>

text \<open>
  What \<^verbatim>\<open>format_output\<close> can receive: the task instruction (a dictionary whose key
  \<^verbatim>\<open>instruction\<close> is \<^verbatim>\<open>CALL_TASK_TOOL\<close>), another dictionary, of which the model keeps
  the keys that are read (\<open>None\<close> for a missing key), or a value that is no dictionary,
  kept as its \<^verbatim>\<open>str\<close>. The score of a dictionary is taken to be a number.
\<close>

record raw_evaluation =
  raw_score :: "real option"
  raw_has_critical_issues :: "bool option"
  raw_has_false_facts :: "bool option"
  raw_issue_count :: "int option"
  raw_quality_notes :: "string option"
  raw_metadata :: "dict option"

datatype raw_output = TaskInstruction | RawDict raw_evaluation | Unexpected string

text \<open>
  What an evaluator's \<^verbatim>\<open>run\<close> hands to its caller: the task instruction, another
  dictionary, or a \<^verbatim>\<open>DocumentEvaluation\<close> object.
\<close>

datatype evaluation_result =
    CallTaskTool
  | ResultDict raw_evaluation
  | ResultObject DocumentEvaluation

definition get_or :: "'a option \<Rightarrow> 'a \<Rightarrow> 'a" where
  "get_or field dflt = (case field of None \<Rightarrow> dflt | Some v \<Rightarrow> v)"

definition from_dict :: "raw_evaluation \<Rightarrow> dict \<Rightarrow> DocumentEvaluation" where
  "from_dict r meta =
     \<lparr>score = get_or (raw_score r) 0,
      has_critical_issues = get_or (raw_has_critical_issues r) False,
      has_false_facts = get_or (raw_has_false_facts r) False,
      issue_count = get_or (raw_issue_count r) 0,
      quality_notes = get_or (raw_quality_notes r) [],
      evaluation_metadata = meta\<rparr>"

definition clamp_score :: "DocumentEvaluation \<Rightarrow> DocumentEvaluation" where
  "clamp_score evaluation =
     (if \<not> (0 \<le> score evaluation \<and> score evaluation \<le> 1)
      then evaluation\<lparr>score := max 0 (min 1 (score evaluation))\<rparr>
      else evaluation)"

definition DocumentEvaluator_format_output :: "raw_output \<Rightarrow> evaluation_result" where
  "DocumentEvaluator_format_output raw =
     (case raw of
        TaskInstruction \<Rightarrow> CallTaskTool
      | RawDict r \<Rightarrow> ResultObject (clamp_score (from_dict r (get_or (raw_metadata r) [])))
      | Unexpected text \<Rightarrow>
          ResultObject (clamp_score
            \<lparr>score = 0, has_critical_issues = True, has_false_facts = False, issue_count = 1,
             quality_notes = ''Evaluation failed - unexpected output format'',
             evaluation_metadata = [(''error'', JStr text)]\<rparr>))"

text \<open>A dictionary that has only a score, as the evaluation records of the examples.\<close>

definition scored :: "real \<Rightarrow> raw_evaluation" where
  "scored s =
     \<lparr>raw_score = Some s, raw_has_critical_issues = None, raw_has_false_facts = None,
      raw_issue_count = None, raw_quality_notes = None, raw_metadata = None\<rparr>"

section \<open>The merger's confidence score (merger/validators.py, merger/merger\_engine.py)\<close>

record ValidationResult =
  passed :: bool
  validation_score :: real
  details :: string
  issues :: "string list"
  coverage :: real

definition default_weights :: "(string \<times> real) list" where
  "default_weights =
     [(''r1_principles'', 0.30), (''r2_examples'', 0.25),
      (''section_completeness'', 0.25), (''actionability'', 0.20)]"

text \<open>
  \<^verbatim>\<open>calculate_confidence_score\<close>: the loop over the items of the dictionary adds up the
  weighted scores and the weights; a validator without a weight gets
  \<^verbatim>\<open>1.0 / len(validation_results)\<close>.
\<close>

definition calculate_confidence_score ::
  "(string \<times> ValidationResult) list \<Rightarrow> (string \<times> real) list option \<Rightarrow> real" where
  "calculate_confidence_score validation_results weights =
     (if validation_results = [] then 0
      else
        let w = (case weights of None \<Rightarrow> default_weights | Some given \<Rightarrow> given);
            (total_score, total_weight) =
              fold (\<lambda>(name, result) (total_score, total_weight).
                      let weight = (case map_of w name of
                                      Some x \<Rightarrow> x
                                    | None \<Rightarrow> 1 / real (length validation_results))
                      in (total_score + validation_score result * weight, total_weight + weight))
                   validation_results (0, 0)
        in if total_weight > 0 then total_score / total_weight else 0)"


text \<open>The two settings of a refinement loop, in the configuration or the engine.\<close>

record loop_config =
  max_iterations :: int
  quality_threshold :: real

definition upper :: "string \<Rightarrow> string" where
  "upper s =
     map (\<lambda>c. if CHR ''a'' \<le> c \<and> c \<le> CHR ''z'' then char_of (of_char c - (32::nat)) else c) s"

definition extract_validation_issues :: "(string \<times> ValidationResult) list \<Rightarrow> string list" where
  "extract_validation_issues validation_results =
     concat (map (\<lambda>(name, result).
                    if \<not> passed result
                    then (''['' @ upper name @ ''] '' @ details result)
                         # map (\<lambda>issue. ''  '' @ issue) (issues result)
                    else [])
                 validation_results)"

text \<open>
  The validation and refinement loop of \<^verbatim>\<open>MergerEngine.merge\<close>. The validators, which
  score the text of the guidelines, and the refinement call to the API are parameters of
  the model: \<open>run_validators\<close> gives the four named results for the current guidelines,
  \<open>execute_refinement\<close> the refined guidelines or an exception. The model keeps the issue
  lists of the refinement calls made, in \<open>calls\<close>, and returns the iteration count, the
  guidelines and the calls at the exit of the loop.
\<close>

function merge_loop ::
  "loop_config \<Rightarrow> (string \<Rightarrow> (string \<times> ValidationResult) list)
     \<Rightarrow> (string \<Rightarrow> string list \<Rightarrow> error + string)
     \<Rightarrow> nat \<Rightarrow> string \<Rightarrow> string list list \<Rightarrow> error + (nat \<times> string \<times> string list list)" where
  "merge_loop cfg run_validators execute_refinement iteration current_guidelines calls =
     (if int iteration < max_iterations cfg then
        let iteration' = iteration + 1;
            validation_results = run_validators current_guidelines;
            confidence = calculate_confidence_score validation_results None
        in if confidence \<ge> quality_threshold cfg then Inr (iteration', current_guidelines, calls)
           else if int iteration' \<ge> max_iterations cfg
           then Inr (iteration', current_guidelines, calls)
           else
             let issues = extract_validation_issues validation_results in
             case execute_refinement current_guidelines issues of
               Inl e \<Rightarrow> Inl e
             | Inr refined \<Rightarrow>
                 merge_loop cfg run_validators execute_refinement iteration' refined
                   (calls @ [issues])
      else Inr (iteration, current_guidelines, calls))"
  by pat_completeness auto
termination
  by (relation "measure (\<lambda>(cfg, rv, rf, iteration, g, calls). nat (max_iterations cfg - int iteration))")
     auto

section \<open>The writing and polishing orchestra (orchestrators/writing\_polishing\_orchestra.py)\<close>

text \<open>
  A call that passes keyword arguments only: Python raises \<^verbatim>\<open>TypeError\<close> for a keyword
  that is no parameter of the function, and for a parameter without default that gets no
  argument.
\<close>

definition call_with_keywords :: "string list \<Rightarrow> string list \<Rightarrow> error + unit" where
  "call_with_keywords parameters keywords =
     (if filter (\<lambda>k. k \<notin> set parameters) keywords \<noteq> [] then Inl TypeError
      else if filter (\<lambda>p. p \<notin> set keywords) parameters \<noteq> [] then Inl TypeError
      else Inr ())"

text \<open>
  \<^verbatim>\<open>BaseAgent.__init__(self, state_manager, stage)\<close> (agents/base\_agent.py). The writing
  agents define no constructor of their own, so constructing one of them is this call.
\<close>

definition BaseAgent_init :: "string list \<Rightarrow> error + unit" where
  "BaseAgent_init keywords = call_with_keywords [''state_manager'', ''stage''] keywords"

text \<open>
  \<^verbatim>\<open>execute\<close> up to its step 3. Steps 1 and 2 read the context data and raise
  \<^verbatim>\<open>KeyError\<close> when \<^verbatim>\<open>master_resume\<close> or \<^verbatim>\<open>parsed_jd\<close> is missing. Step 3 constructs the
  first agent, \<^verbatim>\<open>DraftWriter(state_manager=..., stage_name="initial_draft_writing")\<close>. What
  \<^verbatim>\<open>execute\<close> does after that statement (the draft, the fact checking, version 0 and the
  evaluation loop) is the parameter \<open>rest\<close> of the model.
\<close>

definition execute :: "dict \<Rightarrow> (error + 'r) \<Rightarrow> error + 'r" where
  "execute context_data rest =
     (case map_of context_data ''master_resume'' of
        None \<Rightarrow> Inl KeyError
      | Some master_resume \<Rightarrow>
      case map_of context_data ''parsed_jd'' of
        None \<Rightarrow> Inl KeyError
      | Some parsed_jd \<Rightarrow>
      case BaseAgent_init [''state_manager'', ''stage_name''] of
        Inl e \<Rightarrow> Inl e
      | Inr draft_writer \<Rightarrow> rest)"

text \<open>
  How the loop of \<^verbatim>\<open>execute\<close> reads the result of the evaluator's \<^verbatim>\<open>run\<close> (the
  \<^verbatim>\<open>if\<close>/\<^verbatim>\<open>else\<close> after the evaluation): the default evaluation for a task instruction,
  the keys of a dictionary otherwise; an object that is no dictionary has no \<^verbatim>\<open>get\<close>.
  The score of this evaluation is what the loop passes to the decision functions.
\<close>

definition parse_evaluation :: "evaluation_result \<Rightarrow> nat \<Rightarrow> error + DocumentEvaluation" where
  "parse_evaluation evaluation_result iter =
     (case evaluation_result of
        CallTaskTool \<Rightarrow>
          Inr \<lparr>score = 0.5, has_critical_issues = False, has_false_facts = False,
               issue_count = 0, quality_notes = ''Manual evaluation required'',
               evaluation_metadata = [(''iteration'', JInt (int iter))]\<rparr>
      | ResultDict r \<Rightarrow> Inr (from_dict r [(''iteration'', JInt (int iter))])
      | ResultObject _ \<Rightarrow> Inl AttributeError)"


section \<open>Example inputs\<close>

text \<open>The three matches of the selection example, already in descending order.\<close>

definition three_matches :: "MatchResult list" where
  "three_matches =
     [\<lparr>jd_id = ''JD-001'', match_score = 0.91, relevance_score = 0.8, matched_keywords = [],
       missing_skills = [], recommendation = ''Excellent''\<rparr>,
      \<lparr>jd_id = ''JD-002'', match_score = 0.75, relevance_score = 0.8, matched_keywords = [],
       missing_skills = [], recommendation = ''Good''\<rparr>,
      \<lparr>jd_id = ''JD-003'', match_score = 0.65, relevance_score = 0.7, matched_keywords = [],
       missing_skills = [], recommendation = ''Fair''\<rparr>]"

text \<open>Five units, of which the third raises.\<close>

definition five_agents :: "(nat, nat) agent list" where
  "five_agents =
     [\<lambda>x. Inr (x + 1), \<lambda>x. Inr (x * 2), \<lambda>x. Inl RuntimeError, \<lambda>x. Inr (x + 10), \<lambda>x. Inr 0]"

text \<open>A run directory without files.\<close>

definition empty_run :: StateManager where
  "empty_run = \<lparr>version_files = [], checkpoint_files = []\<rparr>"

text \<open>The version number of a store call's result, or the exception of the call.\<close>

definition version_of :: "error + version_result \<Rightarrow> error + int" where
  "version_of r = (case r of Inl e \<Rightarrow> Inl e | Inr v \<Rightarrow> Inr (version_num v))"

text \<open>
  Two checkpoints of one run: stage \<^verbatim>\<open>writing_polishing\<close> is saved first, stage
  \<^verbatim>\<open>pruning\<close> one second later.
\<close>

definition two_checkpoints :: StateManager where
  "two_checkpoints =
     snd (save_checkpoint
           (snd (save_checkpoint empty_run ''writing_polishing'' [(''step'', JInt 1)]
                   ''20250101_000000'' ''2025-01-01T00:00:00Z''))
           ''pruning'' [(''step'', JInt 2)] ''20250101_000001'' ''2025-01-01T00:00:01Z'')"

text \<open>The dictionary \<^verbatim>\<open>_run_validators\<close> builds from the results of the four validators.\<close>

definition validator_results ::
  "ValidationResult \<Rightarrow> ValidationResult \<Rightarrow> ValidationResult \<Rightarrow> ValidationResult
     \<Rightarrow> (string \<times> ValidationResult) list" where
  "validator_results r1 r2 sections actions =
     [(''r1_principles'', r1), (''r2_examples'', r2),
      (''section_completeness'', sections), (''actionability'', actions)]"

text \<open>Four validator results with the scores 0.9, 0.6, 0.8 and 0.7, and their issues.\<close>

definition validation :: "bool \<Rightarrow> real \<Rightarrow> ValidationResult" where
  "validation ok s =
     \<lparr>passed = ok, validation_score = s, details = ''details'', issues = [''issue''],
      coverage = s * 100\<rparr>"

definition scenario_C_results :: "(string \<times> ValidationResult) list" where
  "scenario_C_results =
     validator_results (validation True 0.9) (validation False 0.6) (validation True 0.8)
       (validation False 0.7)"

definition scenario_C_issues :: "string list" where
  "scenario_C_issues =
     [''[R2_EXAMPLES] details'', ''  issue'', ''[ACTIONABILITY] details'', ''  issue'']"

text \<open>
  The context data of a run that has reached the writing stage: a master resume and a
  parsed job description.
\<close>

definition scenario_B_context :: dict where
  "scenario_B_context =
     [(''master_resume'', JStr ''# Jane Doe''),
      (''parsed_jd'', JObject [(''job_title'', JStr ''Engineer'')]),
      (''document_type'', JStr ''resume'')]"


section \<open>Properties of the agent pool\<close>

lemma tasks_nth:
  assumes "length agents = length inputs" "i < length inputs"
  shows "map (\<lambda>(index, (agent, input_data)). execute_one pool agent input_data index)
             (enumerate 0 (zip agents inputs)) ! i
         = (i, unit_result (agents ! i) (inputs ! i))"
  using assms
  by (simp add: nth_enumerate_eq execute_one_def unit_result_def split: option.splits sum.splits)

lemma execute_agents_eq:
  assumes len: "length agents = length inputs"
    and perm: "mset completion = mset [0..<length agents]"
  shows "execute_agents pool completion agents inputs =
           Inr (map (\<lambda>(agent, input_data). unit_result agent input_data) (zip agents inputs))"
proof (cases "agents = []")
  case True
  then show ?thesis using len by (simp add: execute_agents_def)
next
  case False
  define tasks where "tasks = map (\<lambda>(index, (agent, input_data)). execute_one pool agent input_data index)
                        (enumerate 0 (zip agents inputs))"
  define expected where "expected = map (\<lambda>(agent, input_data). unit_result agent input_data) (zip agents inputs)"
  have ltasks: "length tasks = length agents" using len by (simp add: tasks_def)
  have tn: "\<And>i. i < length agents \<Longrightarrow> tasks ! i = (i, expected ! i)"
    using len tasks_nth[OF len] by (simp add: tasks_def expected_def)
  have tasks_eq: "tasks = zip [0..<length agents] expected"
    by (rule nth_equalityI) (use ltasks tn len in \<open>auto simp: expected_def\<close>)
  have "mset (gather completion tasks) = image_mset (\<lambda>i. tasks ! i) (mset completion)"
    by (simp add: gather_def)
  also have "\<dots> = mset (map (\<lambda>i. tasks ! i) [0..<length tasks])"
    using perm ltasks by simp
  also have "\<dots> = mset tasks" by (simp add: map_nth)
  finally have m: "mset (gather completion tasks) = mset tasks" .
  have fst_tasks: "map fst tasks = [0..<length agents]"
    using tasks_eq len by (simp add: expected_def)
  have inj: "inj_on fst (set (gather completion tasks))"
  proof -
    have "distinct (map fst tasks)" using fst_tasks by simp
    then have "inj_on fst (set tasks)" by (simp add: distinct_map)
    moreover have "set (gather completion tasks) = set tasks" using m by (metis set_mset_mset)
    ultimately show ?thesis by simp
  qed
  have srt: "sorted (map fst tasks)" using fst_tasks by simp
  have "sort_key fst (gather completion tasks) = tasks"
    by (rule sort_key_inj_key_eq[OF m inj srt])
  moreover have "map snd tasks = expected"
    using tasks_eq len by (simp add: expected_def)
  ultimately show ?thesis
    using False len by (simp add: execute_agents_def Let_def tasks_def expected_def)
qed

text \<open>
  C2. For agents and inputs of equal length \<open>N\<close>, whatever the pool's limit and whatever
  the order in which the units complete, \<open>execute_agents\<close> returns \<open>N\<close> results, and the
  result at index \<open>i\<close> is the output, or the caught exception, of unit \<open>i\<close> on input \<open>i\<close>.
\<close>

theorem execute_agents_order_preserved:
  assumes "length agents = length inputs"
    and "mset completion = mset [0..<length agents]"
  shows "\<exists>results. execute_agents pool completion agents inputs = Inr results
           \<and> length results = length inputs
           \<and> (\<forall>i < length inputs. results ! i = unit_result (agents ! i) (inputs ! i))"
  using assms by (simp add: execute_agents_eq)

theorem execute_agents_order_preserved_witness:
  "length five_agents = length [1, 2, 3, 4, 5 :: nat]
   \<and> mset [3, 0, 4, 2, 1] = mset [0..<length five_agents]
   \<and> (\<exists>results. execute_agents \<lparr>pool_size = Some 2\<rparr> [3, 0, 4, 2, 1] five_agents [1, 2, 3, 4, 5]
                   = Inr results
         \<and> length results = 5
         \<and> results = [Succeeded 2, Succeeded 4, Failed RuntimeError, Succeeded 14, Succeeded 0])"
proof -
  have len: "length five_agents = length [1, 2, 3, 4, 5 :: nat]"
    by (simp add: five_agents_def)
  have upt: "[0..<length five_agents] = [0, 1, 2, 3, 4]"
    by (simp add: five_agents_def upt_rec)
  have perm: "mset [3, 0, 4, 2, 1] = mset [0..<length five_agents]"
    unfolding upt by (simp add: add.commute add.left_commute)
  obtain results where
    r: "execute_agents \<lparr>pool_size = Some 2\<rparr> [3, 0, 4, 2, 1] five_agents [1, 2, 3, 4, 5] = Inr results"
    and l: "length results = length [1, 2, 3, 4, 5 :: nat]"
    and n: "\<forall>i < length [1, 2, 3, 4, 5 :: nat].
              results ! i = unit_result (five_agents ! i) ([1, 2, 3, 4, 5] ! i)"
    using execute_agents_order_preserved [OF len perm, of "\<lparr>pool_size = Some 2\<rparr>"] by blast
  have "results = [Succeeded 2, Succeeded 4, Failed RuntimeError, Succeeded 14, Succeeded 0]"
  proof (rule nth_equalityI)
    show "length results = length [Succeeded 2, Succeeded 4, Failed RuntimeError, Succeeded 14, Succeeded (0::nat)]"
      using l by simp
  next
    fix i assume "i < length results"
    then have "i < 5" using l by simp
    then consider "i = 0" | "i = 1" | "i = 2" | "i = 3" | "i = 4" by linarith
    then show "results ! i = [Succeeded 2, Succeeded 4, Failed RuntimeError, Succeeded 14, Succeeded 0] ! i"
      using n by cases (simp_all add: five_agents_def unit_result_def)
  qed
  with len perm r l show ?thesis by simp
qed

text \<open>
  C3. When the unit at index \<open>k\<close> raises, the returned list holds that exception at index
  \<open>k\<close>, and every other unit that returns has its output at its own index: the failure
  neither cancels nor fails the other units.
\<close>

theorem execute_agents_failure_isolated:
  assumes "length agents = length inputs"
    and "mset completion = mset [0..<length agents]"
    and "k < length agents"
    and "(agents ! k) (inputs ! k) = Inl e"
  shows "\<exists>results. execute_agents pool completion agents inputs = Inr results
           \<and> length results = length agents
           \<and> results ! k = Failed e
           \<and> (\<forall>i < length agents. \<forall>r. i \<noteq> k \<and> (agents ! i) (inputs ! i) = Inr r
                  \<longrightarrow> results ! i = Succeeded r)"
  using assms by (simp add: execute_agents_eq unit_result_def)

theorem execute_agents_failure_isolated_witness:
  "length five_agents = length [1, 2, 3, 4, 5 :: nat]
   \<and> mset [3, 0, 4, 2, 1] = mset [0..<length five_agents]
   \<and> 2 < length five_agents
   \<and> (five_agents ! 2) ([1, 2, 3, 4, 5] ! 2) = Inl RuntimeError
   \<and> (\<exists>results. execute_agents \<lparr>pool_size = None\<rparr> [3, 0, 4, 2, 1] five_agents [1, 2, 3, 4, 5]
                   = Inr results
         \<and> results ! 2 = Failed RuntimeError \<and> results ! 0 = Succeeded 2
         \<and> results ! 1 = Succeeded 4 \<and> results ! 3 = Succeeded 14 \<and> results ! 4 = Succeeded 0)"
proof -
  have len: "length five_agents = length [1, 2, 3, 4, 5 :: nat]"
    by (simp add: five_agents_def)
  have upt: "[0..<length five_agents] = [0, 1, 2, 3, 4]"
    by (simp add: five_agents_def upt_rec)
  have perm: "mset [3, 0, 4, 2, 1] = mset [0..<length five_agents]"
    unfolding upt by (simp add: add.commute add.left_commute)
  have k: "2 < length five_agents" by (simp add: five_agents_def)
  have f: "(five_agents ! 2) ([1, 2, 3, 4, 5] ! 2) = Inl RuntimeError"
    by (simp add: five_agents_def)
  obtain results where
    r: "execute_agents \<lparr>pool_size = None\<rparr> [3, 0, 4, 2, 1] five_agents [1, 2, 3, 4, 5] = Inr results"
    and fk: "results ! 2 = Failed RuntimeError"
    and others: "\<forall>i < length five_agents. \<forall>r. i \<noteq> 2 \<and> (five_agents ! i) ([1, 2, 3, 4, 5] ! i) = Inr r
                  \<longrightarrow> results ! i = Succeeded r"
    using execute_agents_failure_isolated [OF len perm k f, of "\<lparr>pool_size = None\<rparr>"] by blast
  have "results ! 0 = Succeeded 2" using others [rule_format, of 0 2] by (simp add: five_agents_def)
  moreover have "results ! 1 = Succeeded 4" using others [rule_format, of 1 4] by (simp add: five_agents_def)
  moreover have "results ! 3 = Succeeded 14" using others [rule_format, of 3 14] by (simp add: five_agents_def)
  moreover have "results ! 4 = Succeeded 0" using others [rule_format, of 4 0] by (simp add: five_agents_def)
  ultimately show ?thesis using len perm k f r fk by simp
qed

section \<open>Properties of the decision logic\<close>

lemma sorted_matches_descending:
  "sorted_wrt (\<lambda>a b. match_score a \<ge> match_score b) (sorted_matches matches)"
proof -
  have "sorted (map (\<lambda>m. - match_score m) (sorted_matches matches))"
    unfolding sorted_matches_def by (rule sorted_sort_key)
  then show ?thesis by (simp add: sorted_map)
qed

lemma sorted_matches_stable:
  "filter (\<lambda>m. match_score m = k) (sorted_matches matches)
     = filter (\<lambda>m. match_score m = k) matches"
proof -
  have "filter (\<lambda>m. - match_score m = - k) (sort_key (\<lambda>m. - match_score m) matches)
          = filter (\<lambda>m. - match_score m = - k) matches"
    by (rule sort_key_stable)
  then show ?thesis by (simp add: sorted_matches_def)
qed

text \<open>
  C9, amended. For every list of matches and every \<open>n \<ge> 0\<close>, \<open>select_top_jds\<close> returns
  the ids of the first \<open>n\<close> matches of the list sorted by match score, descending; the
  sorted list is a permutation of the input, and matches of equal score keep their
  original order. With \<open>n\<close> at least the number of matches, all ids are returned. Three
  matches scored 0.91, 0.75 and 0.65 give, for \<open>n = 2\<close>, the ids of the first and the
  second.
\<close>

theorem select_top_jds_stable_descending:
  assumes "0 \<le> n"
  shows "select_top_jds matches n = map jd_id (take (nat n) (sorted_matches matches))
       \<and> mset (sorted_matches matches) = mset matches
       \<and> sorted_wrt (\<lambda>a b. match_score a \<ge> match_score b) (sorted_matches matches)
       \<and> (\<forall>k. filter (\<lambda>m. match_score m = k) (sorted_matches matches)
                = filter (\<lambda>m. match_score m = k) matches)
       \<and> (int (length matches) \<le> n
            \<longrightarrow> select_top_jds matches n = map jd_id (sorted_matches matches))
       \<and> (match_score a = 0.91 \<and> match_score b = 0.75 \<and> match_score c = 0.65
            \<longrightarrow> select_top_jds [a, b, c] 2 = [jd_id a, jd_id b])"
proof -
  have sel: "select_top_jds matches n = map jd_id (take (nat n) (sorted_matches matches))"
    using assms by (simp add: select_top_jds_def slice_to_def)
  have perm: "mset (sorted_matches matches) = mset matches"
    by (simp add: sorted_matches_def)
  have all: "int (length matches) \<le> n
               \<longrightarrow> select_top_jds matches n = map jd_id (sorted_matches matches)"
    using sel by (simp add: sorted_matches_def)
  have ex: "match_score a = 0.91 \<and> match_score b = 0.75 \<and> match_score c = 0.65
            \<longrightarrow> select_top_jds [a, b, c] 2 = [jd_id a, jd_id b]"
    by (simp add: select_top_jds_def slice_to_def sorted_matches_def)
  show ?thesis
    using sel perm all ex sorted_matches_descending sorted_matches_stable by blast
qed

theorem select_top_jds_stable_descending_witness:
  "(0::int) \<le> 2 \<and> (0::int) \<le> 7 \<and> int (length three_matches) \<le> 7
   \<and> match_score (three_matches ! 0) = 0.91 \<and> match_score (three_matches ! 1) = 0.75
   \<and> match_score (three_matches ! 2) = 0.65
   \<and> select_top_jds three_matches 2 = [''JD-001'', ''JD-002'']
   \<and> select_top_jds three_matches 7 = [''JD-001'', ''JD-002'', ''JD-003'']
   \<and> select_top_jds (rev three_matches) 2 = [''JD-001'', ''JD-002'']
   \<and> select_top_jds [three_matches ! 0, three_matches ! 1, three_matches ! 2] 2
       = [''JD-001'', ''JD-002'']"
proof -
  have h: "(0::int) \<le> 2" by simp
  have h7: "(0::int) \<le> 7" by simp
  have l: "int (length three_matches) \<le> 7" by (simp add: three_matches_def)
  have m: "match_score (three_matches ! 0) = 0.91 \<and> match_score (three_matches ! 1) = 0.75
             \<and> match_score (three_matches ! 2) = 0.65"
    by (simp add: three_matches_def)
  have s: "sorted_matches three_matches = three_matches"
    by (simp add: sorted_matches_def three_matches_def)
  have s2: "sorted_matches (rev three_matches) = three_matches"
    by (simp add: sorted_matches_def three_matches_def)
  have a: "select_top_jds three_matches 2 = [''JD-001'', ''JD-002'']"
    using select_top_jds_stable_descending [OF h, of three_matches] s
    by (simp add: three_matches_def)
  have "select_top_jds three_matches 7 = map jd_id (sorted_matches three_matches)"
    using select_top_jds_stable_descending [OF h7, of three_matches] l by blast
  then have b: "select_top_jds three_matches 7 = [''JD-001'', ''JD-002'', ''JD-003'']"
    using s by (simp add: three_matches_def)
  have c: "select_top_jds (rev three_matches) 2 = [''JD-001'', ''JD-002'']"
    using select_top_jds_stable_descending [OF h, of "rev three_matches"] s2
    by (simp add: three_matches_def)
  have "select_top_jds [three_matches ! 0, three_matches ! 1, three_matches ! 2] 2
          = [jd_id (three_matches ! 0), jd_id (three_matches ! 1)]"
    using select_top_jds_stable_descending
            [OF h, of three_matches "three_matches ! 0" "three_matches ! 1" "three_matches ! 2"] m
    by blast
  then have d: "select_top_jds [three_matches ! 0, three_matches ! 1, three_matches ! 2] 2
                  = [''JD-001'', ''JD-002'']"
    by (simp add: three_matches_def)
  show ?thesis using h h7 l m a b c d by blast
qed

text \<open>
  For \<open>n = -1\<close> the slice drops the last match: the two ids returned are neither the
  first \<open>n\<close> ids (there are none) nor all of them.
\<close>

theorem select_top_jds_negative_counterexample:
  "select_top_jds three_matches (- 1) = [''JD-001'', ''JD-002'']
   \<and> select_top_jds three_matches (- 1)
       \<noteq> map jd_id (take (nat (- 1)) (sorted_matches three_matches))
   \<and> select_top_jds three_matches (- 1) \<noteq> map jd_id (sorted_matches three_matches)"
  by (simp add: select_top_jds_def slice_to_def sorted_matches_def three_matches_def)

text \<open>
  Where the target is positive and the quotient is in the float range, the score is in
  \<open>[0, 1]\<close>; a target of 0 gives the score 0 without a division.
\<close>

lemma calculate_length_score_positive_target:
  assumes "0 < target_length"
    and "real_of_int \<bar>actual_length - target_length\<bar> / real_of_int target_length
           < 2 ^ 1024 - 2 ^ 970"
  shows "\<exists>s. calculate_length_score actual_length target_length = Inr s \<and> 0 \<le> s \<and> s \<le> 1"
proof -
  have "0 \<le> real_of_int \<bar>actual_length - target_length\<bar> / real_of_int target_length"
    using assms(1) by simp
  then show ?thesis
    using assms by (simp add: calculate_length_score_def true_divide_def)
qed

lemma calculate_length_score_zero_target: "calculate_length_score actual_length 0 = Inr 0"
  by (simp add: calculate_length_score_def)

text \<open>
  C10. \<open>calculate_length_score\<close> does not keep its score in \<open>[0, 1]\<close> for every pair of
  integers, and it does not return for every pair: for the length 5 and the target -5
  the quotient is -2 and the score is 3, and for the length \<open>10^400\<close> and the target 1
  the division raises \<^verbatim>\<open>OverflowError\<close>.
\<close>

theorem calculate_length_score_out_of_range:
  "calculate_length_score 5 (- 5) = Inr 3
   \<and> calculate_length_score (10 ^ 400) 1 = Inl OverflowError"
  by (simp add: calculate_length_score_def true_divide_def)

section \<open>Properties of the version store\<close>

lemma version_of_Inr: "version_of (Inr v) = Inr (version_num v)"
  by (simp add: version_of_def)

lemma set_version_numbers:
  "set (version_numbers sm doc) = {n. (doc, n) \<in> fst ` set (version_files sm)}"
  by (force simp: version_numbers_def)

lemma version_numbers_save:
  "set (version_numbers (save_version sm doc n text meta now) doc)
     = insert n (set (version_numbers sm doc))"
  by (auto simp: set_version_numbers save_version_def dom_update)

lemma latest_number_save:
  "latest_number (save_version sm doc (latest_number sm doc + 1) text meta now) doc
     = latest_number sm doc + 1"
proof -
  let ?sm = "save_version sm doc (latest_number sm doc + 1) text meta now"
  have s: "set (version_numbers ?sm doc) = insert (latest_number sm doc + 1) (set (version_numbers sm doc))"
    by (rule version_numbers_save)
  then have ne: "version_numbers ?sm doc \<noteq> []" by auto
  show ?thesis
  proof (cases "version_numbers sm doc = []")
    case True
    then show ?thesis using s ne by (simp add: latest_number_def)
  next
    case False
    then have "Max (insert (Max (set (version_numbers sm doc)) + 1) (set (version_numbers sm doc)))
                 = Max (set (version_numbers sm doc)) + 1"
      by (simp add: max_def)
    then show ?thesis using s ne False by (simp add: latest_number_def)
  qed
qed

lemma get_latest_version_number:
  "get_latest_version sm doc =
     (if version_numbers sm doc = [] then Inl FileNotFoundError
      else Inr (latest_number sm doc, the (map_of (version_files sm) (doc, latest_number sm doc))))"
proof (cases "version_numbers sm doc = []")
  case True
  then show ?thesis by (simp add: get_latest_version_def)
next
  case False
  then have "Max (set (version_numbers sm doc)) \<in> set (version_numbers sm doc)"
    by simp
  then have "(doc, Max (set (version_numbers sm doc))) \<in> fst ` set (version_files sm)"
    by (simp add: set_version_numbers)
  then obtain v where "map_of (version_files sm) (doc, Max (set (version_numbers sm doc))) = Some v"
    by (metis domD dom_map_of_conv_image_fst)
  then show ?thesis using False
    by (simp add: get_latest_version_def load_version_def latest_number_def)
qed

lemma run_store:
  assumes "strip doc \<noteq> []" and "10 \<le> length (strip text)"
  shows "VersionManager_run sm (store_input doc text meta) now =
           Inr (\<lparr>version_num = latest_number sm doc + 1, result_content = text,
                 result_metadata = meta, result_timestamp = None\<rparr>,
                save_version sm doc (latest_number sm doc + 1) text meta now)"
proof -
  have v: "VersionManager_validate_input (store_input doc text meta)"
    using assms by (simp add: VersionManager_validate_input_def store_input_def)
  have e: "VersionManager_execute sm (store_input doc text meta) now =
           Inr (\<lparr>version_num = latest_number sm doc + 1, result_content = text,
                 result_metadata = meta, result_timestamp = None\<rparr>,
                save_version sm doc (latest_number sm doc + 1) text meta now)"
    by (simp add: VersionManager_execute_def store_input_def get_latest_version_number latest_number_def)
  show ?thesis using v e by (simp add: VersionManager_run_def VersionManager_format_output_def)
qed

lemma store_calls_numbers:
  assumes "strip doc \<noteq> []"
    and "\<forall>(text, meta, now) \<in> set requests. 10 \<le> length (strip text)"
  shows "map (version_of) (fst (store_calls sm doc requests))
           = map (\<lambda>i. Inr (latest_number sm doc + 1 + int i)) [0..<length requests]"
  using assms(2)
proof (induction requests arbitrary: sm)
  case Nil
  then show ?case by simp
next
  case (Cons req requests)
  obtain body meta now where req: "req = (body, meta, now)" by (cases req) auto
  have valid: "10 \<le> length (strip body)" using Cons.prems req by simp
  let ?sm = "save_version sm doc (latest_number sm doc + 1) body meta now"
  have ih: "map (version_of) (fst (store_calls ?sm doc requests))
              = map (\<lambda>i. Inr (latest_number ?sm doc + 1 + int i)) [0..<length requests]"
    using Cons.IH Cons.prems by simp
  have shift: "[0..<length (req # requests)] = 0 # map Suc [0..<length requests]"
    by (simp add: upt_conv_Cons map_Suc_upt del: upt_Suc)
  show ?case
    unfolding shift using ih
    by (simp add: req run_store [OF assms(1) valid] latest_number_save split_beta comp_def
          add.assoc version_of_Inr)
qed

text \<open>An input without a document id does not pass the validation of the version manager.\<close>

lemma VersionManager_run_needs_document_id:
  "document_id input_data = None \<Longrightarrow> VersionManager_run sm input_data now = Inl ValueError"
  by (simp add: VersionManager_run_def VersionManager_validate_input_def strip_def Let_def)

text \<open>
  C5. For a document id and contents that pass the version manager's validation, \<open>N\<close>
  consecutive store calls all succeed and yield the version numbers
  \<open>m + 1, m + 2, \<dots>, m + N\<close>, where \<open>m\<close> is the greatest version number the document
  had before (0 without versions): consecutive integers, strictly increasing, starting at
  1 when no version exists.
\<close>

theorem store_calls_consecutive:
  assumes "strip doc \<noteq> []"
    and "\<forall>(text, meta, now) \<in> set requests. 10 \<le> length (strip text)"
  shows "map (version_of) (fst (store_calls sm doc requests))
           = map (\<lambda>i. Inr (latest_number sm doc + 1 + int i)) [0..<length requests]
       \<and> (version_numbers sm doc = []
            \<longrightarrow> map (version_of) (fst (store_calls sm doc requests))
                  = map (\<lambda>i. Inr (1 + int i)) [0..<length requests])"
  using store_calls_numbers [OF assms] by (simp add: latest_number_def)


theorem store_calls_consecutive_witness:
  "strip ''resume'' \<noteq> []
   \<and> 10 \<le> length (strip ''# Resume one'') \<and> 10 \<le> length (strip ''# Resume two'')
   \<and> 10 \<le> length (strip ''# Resume three'')
   \<and> version_numbers empty_run ''resume'' = []
   \<and> map version_of
        (fst (store_calls empty_run ''resume''
               [(''# Resume one'', [], ''t1''), (''# Resume two'', [], ''t2''),
                (''# Resume three'', [], ''t3'')]))
       = [Inr 1, Inr 2, Inr 3]"
proof -
  have d: "strip ''resume'' \<noteq> []"
    by (simp add: strip_def is_space_def)
  have c1: "10 \<le> length (strip ''# Resume one'')"
    and c2: "10 \<le> length (strip ''# Resume two'')"
    and c3: "10 \<le> length (strip ''# Resume three'')"
    by (simp_all add: strip_def is_space_def)
  have c: "\<forall>(text, meta, now) \<in> set [(''# Resume one'', [] :: dict, ''t1''),
                                   (''# Resume two'', [], ''t2''),
                                   (''# Resume three'', [], ''t3'')]. 10 \<le> length (strip text)"
    using c1 c2 c3 by simp
  have n: "version_numbers empty_run ''resume'' = []"
    by (simp add: version_numbers_def empty_run_def)
  have u: "[0..<length [(''# Resume one'', [] :: dict, ''t1''), (''# Resume two'', [], ''t2''),
                                   (''# Resume three'', [], ''t3'')]] = [0, 1, 2]"
    by (simp add: upt_rec)
  have r: "map version_of
        (fst (store_calls empty_run ''resume''
               [(''# Resume one'', [], ''t1''), (''# Resume two'', [], ''t2''),
                (''# Resume three'', [], ''t3'')]))
       = map (\<lambda>i. Inr (1 + int i)) [0, 1, 2]"
    using store_calls_consecutive [OF d c, of empty_run] n unfolding u by blast
  have "map (\<lambda>i. Inr (1 + int i) :: error + int) [0, 1, 2] = [Inr 1, Inr 2, Inr 3]"
    by simp
  with r d c1 c2 c3 n show ?thesis by (intro conjI) simp_all
qed

section \<open>Properties of the checkpoint store\<close>

text \<open>
  C6. The latest checkpoint is chosen by file name, and the name begins with the stage:
  after a checkpoint of stage \<^verbatim>\<open>writing_polishing\<close> and a later one of stage
  \<^verbatim>\<open>pruning\<close>, \<open>load_latest_checkpoint\<close> returns the earlier one, although the other
  has the greater time of creation.
\<close>

theorem load_latest_checkpoint_by_name:
  "load_latest_checkpoint two_checkpoints =
     Inr (Some (JStr ''writing_polishing'',
                [(''step'', JInt 1), (''stage'', JStr ''writing_polishing''),
                 (''checkpoint_timestamp'', JStr ''2025-01-01T00:00:00Z'')]))
   \<and> map (created_at \<circ> snd) (checkpoint_files two_checkpoints)
       = [''2025-01-01T00:00:00Z'', ''2025-01-01T00:00:01Z'']
   \<and> ''2025-01-01T00:00:00Z'' < ''2025-01-01T00:00:01Z''"
  by (simp add: load_latest_checkpoint_def list_checkpoints_def two_checkpoints_def
        save_checkpoint_def empty_run_def created_at_def Let_def)

section \<open>Properties of the merge loop\<close>

lemma confidence_four:
  assumes "validation_score r1 = 0.9" "validation_score r2 = 0.6"
    "validation_score sections = 0.8" "validation_score actions = 0.7"
  shows "calculate_confidence_score (validator_results r1 r2 sections actions) None = 0.76"
  using assms
  by (simp add: calculate_confidence_score_def validator_results_def default_weights_def)

text \<open>
  C7, amended. Validator scores 0.9, 0.6, 0.8 and 0.7 with the weights 0.30, 0.25, 0.25
  and 0.20 give the confidence 0.76, and with the threshold 0.85 an iteration of the merge
  loop that is not the last one calls the refinement with the validators' issues and goes
  on with the refined guidelines.
\<close>

theorem scenario_C_confidence_and_refinement:
  assumes "validation_score r1 = 0.9" and "validation_score r2 = 0.6"
    and "validation_score sections = 0.8" and "validation_score actions = 0.7"
  shows "calculate_confidence_score (validator_results r1 r2 sections actions) None = 0.76
       \<and> (run_validators g = validator_results r1 r2 sections actions
            \<and> quality_threshold cfg = 0.85 \<and> int i + 1 < max_iterations cfg
            \<longrightarrow> merge_loop cfg run_validators execute_refinement i g calls =
                  (case execute_refinement g (extract_validation_issues (run_validators g)) of
                     Inl e \<Rightarrow> Inl e
                   | Inr refined \<Rightarrow>
                       merge_loop cfg run_validators execute_refinement (i + 1) refined
                         (calls @ [extract_validation_issues (run_validators g)])))"
proof -
  have c: "calculate_confidence_score (validator_results r1 r2 sections actions) None = 0.76"
    using assms by (rule confidence_four)
  show ?thesis
  proof (intro conjI impI)
    show "calculate_confidence_score (validator_results r1 r2 sections actions) None = 0.76"
      by (rule c)
  next
    assume h: "run_validators g = validator_results r1 r2 sections actions
            \<and> quality_threshold cfg = 0.85 \<and> int i + 1 < max_iterations cfg"
    then have rv: "calculate_confidence_score (run_validators g) None = 0.76"
      and thr: "quality_threshold cfg = 0.85" and more: "int i + 1 < max_iterations cfg"
      using c by simp_all
    show "merge_loop cfg run_validators execute_refinement i g calls =
                  (case execute_refinement g (extract_validation_issues (run_validators g)) of
                     Inl e \<Rightarrow> Inl e
                   | Inr refined \<Rightarrow>
                       merge_loop cfg run_validators execute_refinement (i + 1) refined
                         (calls @ [extract_validation_issues (run_validators g)]))"
      using more by (subst merge_loop.simps) (simp add: Let_def rv thr split: sum.splits)
  qed
qed


theorem scenario_C_confidence_and_refinement_witness:
  "calculate_confidence_score scenario_C_results None = 0.76
   \<and> quality_threshold \<lparr>max_iterations = 3, quality_threshold = 0.85\<rparr> = 0.85
   \<and> int 0 + 1 < max_iterations \<lparr>max_iterations = 3, quality_threshold = 0.85\<rparr>
   \<and> merge_loop \<lparr>max_iterations = 3, quality_threshold = 0.85\<rparr> (\<lambda>g. scenario_C_results)
        (\<lambda>g issues. Inr (g @ ''+'')) 0 ''g'' []
       = Inr (3, ''g++'', [scenario_C_issues, scenario_C_issues])"
proof -
  let ?cfg = "\<lparr>max_iterations = 3, quality_threshold = 0.85\<rparr>"
  let ?rv = "\<lambda>g :: string. scenario_C_results"
  let ?rf = "\<lambda>(g :: string) (issues :: string list). Inr (g @ ''+'') :: error + string"
  have s1: "validation_score (validation True 0.9) = 0.9" by (simp add: validation_def)
  have s2: "validation_score (validation False 0.6) = 0.6" by (simp add: validation_def)
  have s3: "validation_score (validation True 0.8) = 0.8" by (simp add: validation_def)
  have s4: "validation_score (validation False 0.7) = 0.7" by (simp add: validation_def)
  note t = scenario_C_confidence_and_refinement [OF s1 s2 s3 s4, folded scenario_C_results_def]
  have c: "calculate_confidence_score scenario_C_results None = 0.76"
    using t by blast
  have iss: "extract_validation_issues scenario_C_results = scenario_C_issues"
    by code_simp
  have step: "\<And>i g calls. int i + 1 < 3 \<Longrightarrow> merge_loop ?cfg ?rv ?rf i g calls
                 = merge_loop ?cfg ?rv ?rf (i + 1) (g @ ''+'') (calls @ [scenario_C_issues])"
    using t [of ?rv _ ?cfg _ ?rf] iss by simp
  have last: "merge_loop ?cfg ?rv ?rf 2 ''g++'' [scenario_C_issues, scenario_C_issues]
                = Inr (3, ''g++'', [scenario_C_issues, scenario_C_issues])"
    using c by (subst merge_loop.simps) (simp add: Let_def)
  have "merge_loop ?cfg ?rv ?rf 0 ''g'' []
          = Inr (3, ''g++'', [scenario_C_issues, scenario_C_issues])"
    using step [of 0 "''g''" "[]"] step [of 1 "''g+''" "[scenario_C_issues]"] last
    by (simp add: numeral_2_eq_2)
  with c show ?thesis by simp
qed

text \<open>The weighted sum is 0.27 + 0.15 + 0.20 + 0.14, which is not 0.755.\<close>

theorem scenario_C_confidence_counterexample:
  "calculate_confidence_score scenario_C_results None \<noteq> 0.755"
  by (simp add: calculate_confidence_score_def scenario_C_results_def validator_results_def
        validation_def default_weights_def)

section \<open>Properties of the evaluation format\<close>

lemma clamp_score_range: "0 \<le> score (clamp_score e) \<and> score (clamp_score e) \<le> 1"
  by (auto simp: clamp_score_def)




section \<open>Properties of the writing and polishing orchestra\<close>

text \<open>
  The keyword \<^verbatim>\<open>stage_name\<close> is no parameter of the agents' constructor, so the
  construction raises; with the keyword \<^verbatim>\<open>stage\<close>, as the job matching orchestra passes
  it, the construction succeeds.
\<close>

lemma BaseAgent_init_stage_name:
  "BaseAgent_init [''state_manager'', ''stage_name''] = Inl TypeError"
  by (simp add: BaseAgent_init_def call_with_keywords_def)

lemma BaseAgent_init_stage: "BaseAgent_init [''state_manager'', ''stage''] = Inr ()"
  by (simp add: BaseAgent_init_def call_with_keywords_def)

text \<open>Whatever the context data and the rest of the method, \<open>execute\<close> raises.\<close>

lemma execute_raises:
  "execute context_data rest = Inl KeyError \<or> execute context_data rest = Inl TypeError"
  by (simp add: execute_def BaseAgent_init_stage_name split: option.splits)

text \<open>
  C1. A run of the writing and polishing orchestra that has its master resume and its
  parsed job description does not reach the evaluation loop: \<open>execute\<close> raises
  \<^verbatim>\<open>TypeError\<close> where it constructs the draft writer, whatever the statements after it
  would do. No iteration is evaluated, no version is restored, and no status is returned.
\<close>

theorem execute_scenario_B_raises:
  "execute scenario_B_context rest = Inl TypeError"
  by (simp add: execute_def scenario_B_context_def BaseAgent_init_stage_name)



end
